theory Spec2Isabelle
  imports Complex_Main
begin

section \<open>Numbers of the source language\<close>

text \<open>
  The module \<^verbatim>\<open>audio_splitter.py\<close> computes with Python \<^verbatim>\<open>float\<close> and \<^verbatim>\<open>int\<close>.
  Python integers are unbounded and are modelled by \<^typ>\<open>int\<close>. A Python float is
  modelled by a \<^typ>\<open>real\<close>: every operation is the exact operation on real numbers, the
  literal \<^verbatim>\<open>1e-3\<close> is the number \<open>1/1000\<close>, and there is no NaN, no infinity and no
  overflow. The operations that raise in Python (division by zero) are branches
  of the model. What is proved below is therefore proved of the algorithm in exact
  arithmetic; the concrete inputs used in the closed theorems are chosen so that no
  intermediate value is near a rounding boundary.
\<close>

definition py_int :: "real \<Rightarrow> int" where
  \<comment> \<open>\<^verbatim>\<open>int(x)\<close> on a float: truncation towards zero.\<close>
  "py_int x = (if 0 \<le> x then \<lfloor>x\<rfloor> else \<lceil>x\<rceil>)"

definition py_round :: "real \<Rightarrow> int" where
  \<comment> \<open>\<^verbatim>\<open>round(x)\<close> with one argument: the nearest integer, a tie goes to the even one.\<close>
  "py_round x =
     (let f = \<lfloor>x\<rfloor>; d = x - of_int f
      in if d < 1/2 then f
         else if 1/2 < d then f + 1
         else if even f then f else f + 1)"

definition round3 :: "real \<Rightarrow> real" where
  \<comment> \<open>\<^verbatim>\<open>round(x, 3)\<close>: the nearest multiple of one thousandth, ties to even.\<close>
  "round3 x = of_int (py_round (x * 1000)) / 1000"

definition floordiv :: "real \<Rightarrow> real \<Rightarrow> real" where
  \<comment> \<open>\<^verbatim>\<open>x // y\<close> on floats, for \<open>y \<noteq> 0\<close>; the callers test \<open>y = 0\<close> first.\<close>
  "floordiv x y = of_int \<lfloor>x / y\<rfloor>"

section \<open>Errors\<close>

text \<open>
  Every \<^verbatim>\<open>raise\<close> of the module is a value. The message of an exception is kept as a
  constructor of \<open>msg\<close> (the Spanish texts of the source are given in ASCII):
  \<^item> \<open>SegmentsMsg\<close>: "segments debe ser >= 1";
  \<^item> \<open>CodecMsg\<close>: "codec invalido (usa mp3|aac|copy)";
  \<^item> \<open>ExportCodecMsg\<close>: "codec invalido";
  \<^item> \<open>UrlMsg\<close>: "URL debe ser http(s)";
  \<^item> \<open>SizeMsg n\<close>: "Archivo supera el limite de n bytes";
  \<^item> \<open>NoCyclesMsg\<close>: "No hay ciclos suficientes (reduce segments o usa otro cycle).";
  \<^item> \<open>CycleSourceMsg\<close>: "Pasa 'video_url' o 'video_duration'";
  \<^item> \<open>CycleMsg\<close>: "La duracion del ciclo debe ser > 0";
  \<^item> \<open>DivZeroMsg\<close>: the text of Python's ZeroDivisionError;
  \<^item> \<open>IndexMsg\<close>: the text of Python's IndexError;
  \<^item> \<open>External s\<close>: the text \<open>s\<close> of an error raised by a collaborator (HTTP client,
    subprocess, object store);
  \<^item> \<open>FfprobeAudio m\<close>, \<open>FfprobeVideo m\<close>, \<open>FfmpegMsg m\<close>: the prefixes
    "ffprobe error (audio): ", "ffprobe error (video): " and "ffmpeg error: " before \<open>m\<close>.
\<close>

datatype msg =
    SegmentsMsg
  | CodecMsg
  | ExportCodecMsg
  | UrlMsg
  | SizeMsg nat
  | NoCyclesMsg
  | CycleSourceMsg
  | CycleMsg
  | DivZeroMsg
  | IndexMsg
  | External string
  | FfprobeAudio msg
  | FfprobeVideo msg
  | FfmpegMsg msg

datatype error =
    ValueError msg
  | RuntimeError msg
  | ZeroDivisionError msg
  | IndexError msg
  | OtherError msg

fun str_of :: "error \<Rightarrow> msg" where
  \<comment> \<open>\<^verbatim>\<open>str(e)\<close>\<close>
  "str_of (ValueError m) = m"
| "str_of (RuntimeError m) = m"
| "str_of (ZeroDivisionError m) = m"
| "str_of (IndexError m) = m"
| "str_of (OtherError m) = m"

section \<open>The cycle-cut planner\<close>

definition eps :: real where
  "eps = 1 / 1000"

definition max_k_of :: "real \<Rightarrow> real \<Rightarrow> int" where
  \<comment> \<open>\<^verbatim>\<open>max_k = int((audio_dur - eps) // cycle)\<close>\<close>
  "max_k_of audio_dur cycle = py_int (floordiv (audio_dur - eps) cycle)"

definition ideal_k_of :: "real \<Rightarrow> real \<Rightarrow> int \<Rightarrow> int" where
  \<comment> \<open>\<^verbatim>\<open>ideal_time = i * ideal_len; ideal_k = int(round(ideal_time / cycle))\<close>\<close>
  "ideal_k_of ideal_len cycle i =
     (let ideal_time = of_int i * ideal_len in py_round (ideal_time / cycle))"

definition min_allowed_of :: "int \<Rightarrow> int" where
  \<comment> \<open>\<^verbatim>\<open>min_allowed = k_prev + 1\<close>\<close>
  "min_allowed_of k_prev = k_prev + 1"

definition max_allowed_of :: "int \<Rightarrow> int \<Rightarrow> int \<Rightarrow> int" where
  \<comment> \<open>\<^verbatim>\<open>max_allowed = max_k - ((segments - 1) - i)\<close>\<close>
  "max_allowed_of max_k segments i = max_k - ((segments - 1) - i)"

definition choose_k :: "int \<Rightarrow> int \<Rightarrow> int \<Rightarrow> int" where
  \<comment> \<open>the collapse of \<open>min_allowed\<close> and the clamp: lines 83 to 85\<close>
  "choose_k ideal_k min_allowed max_allowed =
     (let min_allowed = (if min_allowed > max_allowed then max_allowed else min_allowed)
      in max (min ideal_k max_allowed) min_allowed)"

definition loop_body :: "real \<Rightarrow> real \<Rightarrow> int \<Rightarrow> int \<Rightarrow> int \<Rightarrow> int \<Rightarrow> int" where
  \<comment> \<open>one iteration of the loop: the \<open>k\<close> chosen at index \<open>i\<close> after \<open>k_prev\<close>\<close>
  "loop_body ideal_len cycle max_k segments k_prev i =
     choose_k (ideal_k_of ideal_len cycle i) (min_allowed_of k_prev)
       (max_allowed_of max_k segments i)"

fun cuts_loop :: "real \<Rightarrow> real \<Rightarrow> int \<Rightarrow> int \<Rightarrow> int list \<Rightarrow> int \<Rightarrow> int list \<Rightarrow> int list" where
  \<comment> \<open>\<^verbatim>\<open>for i in range(1, segments): ...; ks.append(k); k_prev = k\<close>, over the
      indices still to visit, with the loop variables \<open>k_prev\<close> and \<open>ks\<close>\<close>
  "cuts_loop ideal_len cycle max_k segments [] k_prev ks = ks"
| "cuts_loop ideal_len cycle max_k segments (i # is) k_prev ks =
     (let k = loop_body ideal_len cycle max_k segments k_prev i
      in cuts_loop ideal_len cycle max_k segments is k (ks @ [k]))"

fun loop_heads :: "real \<Rightarrow> real \<Rightarrow> int \<Rightarrow> int \<Rightarrow> int list \<Rightarrow> int \<Rightarrow> (int \<times> int) list" where
  \<comment> \<open>the same loop, recording at the head of each iteration the pair \<open>(i, k_prev)\<close>\<close>
  "loop_heads ideal_len cycle max_k segments [] k_prev = []"
| "loop_heads ideal_len cycle max_k segments (i # is) k_prev =
     (i, k_prev) #
     loop_heads ideal_len cycle max_k segments is
       (loop_body ideal_len cycle max_k segments k_prev i)"

definition chosen_ks :: "real \<Rightarrow> int \<Rightarrow> real \<Rightarrow> int list" where
  \<comment> \<open>\<^verbatim>\<open>ideal_len = audio_dur / segments; ks = []; k_prev = 0\<close> and the loop over
      \<^verbatim>\<open>range(1, segments)\<close>: the list \<open>ks\<close> when the loop is over\<close>
  "chosen_ks audio_dur segments cycle =
     cuts_loop (audio_dur / of_int segments) cycle (max_k_of audio_dur cycle) segments
       [1..segments - 1] 0 []"

definition planner_heads :: "real \<Rightarrow> int \<Rightarrow> real \<Rightarrow> (int \<times> int) list" where
  \<comment> \<open>the loop heads of a call of the planner\<close>
  "planner_heads audio_dur segments cycle =
     loop_heads (audio_dur / of_int segments) cycle (max_k_of audio_dur cycle) segments
       [1..segments - 1] 0"

definition planner_body :: "real \<Rightarrow> int \<Rightarrow> real \<Rightarrow> int \<Rightarrow> int \<Rightarrow> int" where
  \<comment> \<open>the loop body of a call of the planner\<close>
  "planner_body audio_dur segments cycle k_prev i =
     loop_body (audio_dur / of_int segments) cycle (max_k_of audio_dur cycle) segments k_prev i"

text \<open>
  The planner. Its two divisions raise ZeroDivisionError in Python when the divisor is
  zero: \<^verbatim>\<open>(audio_dur - eps) // cycle\<close> when \<open>cycle = 0\<close>, and
  \<^verbatim>\<open>audio_dur / segments\<close> when \<open>segments = 0\<close>; \<^verbatim>\<open>ideal_time / cycle\<close> is only
  reached with \<open>cycle \<noteq> 0\<close>. The ValueError of line 74 is \<open>ValueError NoCyclesMsg\<close>,
  which the specification calls InsufficientCyclesError.
\<close>

definition compute_equalized_cycle_cuts :: "real \<Rightarrow> int \<Rightarrow> real \<Rightarrow> error + real list" where
  "compute_equalized_cycle_cuts audio_dur segments cycle =
     (if segments = 1 then Inr [0, audio_dur]
      else if cycle = 0 then Inl (ZeroDivisionError DivZeroMsg)
      else
        let max_k = max_k_of audio_dur cycle
        in if max_k < segments - 1 then Inl (ValueError NoCyclesMsg)
           else if segments = 0 then Inl (ZeroDivisionError DivZeroMsg)
           else
             let ks = chosen_ks audio_dur segments cycle
             in Inr ([0] @ map (\<lambda>k. round3 (of_int k * cycle)) ks @ [round3 audio_dur]))"

section \<open>Timestamps\<close>

text \<open>
  The format specification \<^verbatim>\<open>{n:0Wd}\<close> of an f-string prints the integer \<open>n\<close> in
  decimal, filled with zeros on the left up to the width \<open>W\<close>; a minus sign comes first
  and counts in the width. A number with more digits than \<open>W\<close> is printed in full.
\<close>

definition digit_char :: "nat \<Rightarrow> char" where
  "digit_char d = ''0123456789'' ! d"

fun dec_digits :: "nat \<Rightarrow> string" where
  "dec_digits n =
     (if n < 10 then [digit_char n] else dec_digits (n div 10) @ [digit_char (n mod 10)])"

definition zero_pad :: "nat \<Rightarrow> string \<Rightarrow> string" where
  "zero_pad w s = replicate (w - length s) (CHR ''0'') @ s"

definition fmt_d :: "nat \<Rightarrow> int \<Rightarrow> string" where
  \<comment> \<open>\<^verbatim>\<open>f"{n:0Wd}"\<close>\<close>
  "fmt_d w n =
     (if n < 0 then CHR ''-'' # zero_pad (w - 1) (dec_digits (nat (- n)))
      else zero_pad w (dec_digits (nat n)))"

definition hhmmss_ms :: "real \<Rightarrow> string" where
  \<comment> \<open>\<^verbatim>\<open>return f"{h:02d}:{m:02d}:{s:02d}.{ms:03d}"\<close>; \<^verbatim>\<open>%\<close> and \<^verbatim>\<open>//\<close> on
      Python integers round towards minus infinity, as \<open>mod\<close> and \<open>div\<close> on \<^typ>\<open>int\<close> do\<close>
  "hhmmss_ms t =
     (let ms = py_round ((t - of_int (py_int t)) * 1000);
          s = py_int t mod 60;
          m = (py_int t div 60) mod 60;
          h = py_int t div 3600
      in fmt_d 2 h @ '':'' @ fmt_d 2 m @ '':'' @ fmt_d 2 s @ ''.'' @ fmt_d 3 ms)"

declare dec_digits.simps [simp del]

section \<open>Collaborators and effects\<close>

text \<open>
  Four functions of the module do nothing but input and output: \<^verbatim>\<open>download_to_path\<close>
  (HTTP client and file write), \<^verbatim>\<open>media_duration_seconds\<close> (the prober subprocess and
  the parse of its output), \<^verbatim>\<open>_run\<close> (a subprocess) and \<^verbatim>\<open>upload_file_to_r2\<close>
  (the object store). Their outcomes are fields of a \<open>world\<close>, together with the
  temporary directory of the request and two values read from the process environment
  (\<^verbatim>\<open>FFMPEG\<close> and \<^verbatim>\<open>R2_PREFIX_DEFAULT\<close>). Each call of one of them is recorded, in
  order, in a list of events, whether it succeeds or fails. The creation and removal of
  directories are not recorded.
\<close>

datatype event =
    Download string string
  | Probe string
  | Run "string list"
  | Upload string string

record world =
  tmp_dir :: string
  ffmpeg_path :: string
  r2_prefix_default :: string
  download_to_path :: "string \<Rightarrow> string \<Rightarrow> error option"
  media_duration_seconds :: "string \<Rightarrow> error + real"
  run_cmd :: "string list \<Rightarrow> error + string"
  upload_file_to_r2 :: "string \<Rightarrow> string \<Rightarrow> error + string"

text \<open>
  A computation takes the events so far and returns an error or a value, with the
  events extended. \<open>io_bind\<close> is sequencing: an error ends the computation, as a raised
  exception does. \<open>io_rethrow h m\<close> is
  \<^verbatim>\<open>try: m except Exception as e: raise h(e)\<close>.
\<close>

type_synonym 'a io = "event list \<Rightarrow> (error + 'a) \<times> event list"

definition io_return :: "'a \<Rightarrow> 'a io" where
  "io_return x tr = (Inr x, tr)"

definition io_raise :: "error \<Rightarrow> 'a io" where
  "io_raise e tr = (Inl e, tr)"

definition io_bind :: "'a io \<Rightarrow> ('a \<Rightarrow> 'b io) \<Rightarrow> 'b io" where
  "io_bind m f tr = (case m tr of (Inl e, tr') \<Rightarrow> (Inl e, tr') | (Inr x, tr') \<Rightarrow> f x tr')"

definition io_rethrow :: "(error \<Rightarrow> error) \<Rightarrow> 'a io \<Rightarrow> 'a io" where
  "io_rethrow h m tr = (case m tr of (Inl e, tr') \<Rightarrow> (Inl (h e), tr') | (Inr x, tr') \<Rightarrow> (Inr x, tr'))"

definition io_lift :: "error + 'a \<Rightarrow> 'a io" where
  "io_lift r tr = (r, tr)"

definition call_download :: "world \<Rightarrow> string \<Rightarrow> string \<Rightarrow> unit io" where
  "call_download w url dst tr =
     ((case download_to_path w url dst of None \<Rightarrow> Inr () | Some e \<Rightarrow> Inl e),
      tr @ [Download url dst])"

definition call_probe :: "world \<Rightarrow> string \<Rightarrow> real io" where
  "call_probe w path tr = (media_duration_seconds w path, tr @ [Probe path])"

definition call_run :: "world \<Rightarrow> string list \<Rightarrow> string io" where
  "call_run w cmd tr = (run_cmd w cmd, tr @ [Run cmd])"

definition call_upload :: "world \<Rightarrow> string \<Rightarrow> string \<Rightarrow> string io" where
  "call_upload w local_path k tr = (upload_file_to_r2 w local_path k, tr @ [Upload local_path k])"

section \<open>Paths and strings\<close>

text \<open>
  A \<^verbatim>\<open>Path\<close> is modelled by its string. \<open>path_join\<close> is the operator \<^verbatim>\<open>/\<close> of
  \<^verbatim>\<open>pathlib\<close>, \<open>path_name\<close> is \<^verbatim>\<open>.name\<close> and \<open>strip_slash\<close> is
  \<^verbatim>\<open>.strip("/")\<close>. The normalisation that \<^verbatim>\<open>pathlib\<close> applies to dots and repeated
  slashes is left out; no property below depends on a file name.
\<close>

definition path_join :: "string \<Rightarrow> string \<Rightarrow> string" where
  "path_join dir name = dir @ ''/'' @ name"

definition path_name :: "string \<Rightarrow> string" where
  "path_name p =
     (let q = dropWhile (\<lambda>c. c = CHR ''/'') (rev p)
      in rev (takeWhile (\<lambda>c. c \<noteq> CHR ''/'') q))"

definition strip_slash :: "string \<Rightarrow> string" where
  "strip_slash s =
     rev (dropWhile (\<lambda>c. c = CHR ''/'') (rev (dropWhile (\<lambda>c. c = CHR ''/'') s)))"

section \<open>The exporter\<close>

definition codec_args :: "string \<Rightarrow> string \<Rightarrow> error + string list" where
  \<comment> \<open>the \<^verbatim>\<open>if codec == "mp3" ... elif ... else: raise ValueError\<close> chain of lines 129 to 136\<close>
  "codec_args codec quality =
     (if codec = ''mp3'' then Inr [''-acodec'', ''libmp3lame'', ''-q:a'', quality]
      else if codec = ''aac'' then Inr [''-acodec'', ''aac'', ''-b:a'', quality]
      else if codec = ''copy'' then Inr [''-c'', ''copy'']
      else Inl (ValueError ExportCodecMsg))"

definition export_cmd :: "world \<Rightarrow> string \<Rightarrow> real list \<Rightarrow> nat \<Rightarrow> string list" where
  \<comment> \<open>the first part of \<open>cmd\<close>, lines 121 to 128, for an index \<open>i\<close> with
      \<open>i + 1 < length cuts\<close>\<close>
  "export_cmd w input_audio cuts i =
     (let ss = cuts ! i;
          to = cuts ! (i + 1);
          dur = max 0 (to - ss)
      in [ffmpeg_path w, ''-hide_banner'', ''-y'',
          ''-ss'', hhmmss_ms ss, ''-t'', hhmmss_ms dur,
          ''-i'', input_audio, ''-vn''])"

definition part_file :: "string \<Rightarrow> string \<Rightarrow> nat \<Rightarrow> string" where
  \<comment> \<open>\<^verbatim>\<open>out_file = outdir / f"part_{i+1:03d}.{ext}"\<close>\<close>
  "part_file outdir ext i = path_join outdir (''part_'' @ fmt_d 3 (int i + 1) @ ''.'' @ ext)"

text \<open>
  The loop of \<^verbatim>\<open>export_segments\<close> over \<^verbatim>\<open>range(len(cuts) - 1)\<close>, with the list
  \<open>outputs\<close> as loop variable.
\<close>

fun export_loop ::
  "world \<Rightarrow> string \<Rightarrow> real list \<Rightarrow> string \<Rightarrow> string \<Rightarrow> string \<Rightarrow> string \<Rightarrow>
   nat list \<Rightarrow> string list \<Rightarrow> string list io" where
  "export_loop w input_audio cuts outdir codec quality ext [] outputs = io_return outputs"
| "export_loop w input_audio cuts outdir codec quality ext (i # is) outputs =
     (let out_file = part_file outdir ext i;
          cmd = export_cmd w input_audio cuts i
      in io_bind (io_lift (codec_args codec quality)) (\<lambda>extra.
         io_bind (call_run w (cmd @ extra @ [''-map_metadata'', ''-1'', out_file])) (\<lambda>_.
         export_loop w input_audio cuts outdir codec quality ext is (outputs @ [out_file]))))"

definition export_segments ::
  "world \<Rightarrow> string \<Rightarrow> real list \<Rightarrow> string \<Rightarrow> string \<Rightarrow> string \<Rightarrow> string \<Rightarrow> string list io" where
  "export_segments w input_audio cuts outdir codec quality ext =
     export_loop w input_audio cuts outdir codec quality ext [0..<length cuts - 1] []"

section \<open>The orchestrator\<close>

record split_result =
  audio :: string
  key :: string
  start_with_inverted :: bool

definition phase_inverted :: "real \<Rightarrow> real \<Rightarrow> bool \<Rightarrow> bool" where
  \<comment> \<open>lines 221 to 224, for \<open>cycle \<noteq> 0\<close>\<close>
  "phase_inverted seg_start cycle first_inverted =
     (let clips_passed = py_int (floordiv seg_start cycle);
          inverted = (clips_passed mod 2 = 1)
      in if first_inverted then \<not> inverted else inverted)"

text \<open>
  The loop over \<^verbatim>\<open>enumerate(local_files, start=1)\<close>, with the list \<open>results\<close> as
  loop variable. \<open>idx\<close> is at least 1 there, so \<^verbatim>\<open>cuts[idx - 1]\<close> never has a negative
  index; an index beyond the list raises IndexError.
\<close>

fun publish_loop ::
  "world \<Rightarrow> real list \<Rightarrow> real \<Rightarrow> bool \<Rightarrow> string \<Rightarrow> (nat \<times> string) list \<Rightarrow>
   split_result list \<Rightarrow> split_result list io" where
  "publish_loop w cuts cycle first_inverted prefix [] results = io_return results"
| "publish_loop w cuts cycle first_inverted prefix ((idx, local_path) # rest) results =
     (let k = prefix @ path_name local_path
      in io_bind (call_upload w local_path k) (\<lambda>public_url.
         if length cuts \<le> idx - 1 then io_raise (IndexError IndexMsg)
         else if cycle = 0 then io_raise (ZeroDivisionError DivZeroMsg)
         else
           let seg_start = cuts ! (idx - 1);
               inverted = phase_inverted seg_start cycle first_inverted
           in publish_loop w cuts cycle first_inverted prefix rest
                (results @ [\<lparr>audio = public_url, key = k, start_with_inverted = inverted\<rparr>])))"

definition resolve_cycle :: "world \<Rightarrow> string \<Rightarrow> real option \<Rightarrow> string option \<Rightarrow> real io" where
  \<comment> \<open>lines 184 to 194; \<^verbatim>\<open>not video_url\<close> holds of \<^verbatim>\<open>None\<close> and of the empty string\<close>
  "resolve_cycle w td_path video_duration video_url =
     (case video_duration of
        Some d \<Rightarrow> io_return d
      | None \<Rightarrow>
          (case video_url of
             None \<Rightarrow> io_raise (ValueError CycleSourceMsg)
           | Some u \<Rightarrow>
               if u = [] then io_raise (ValueError CycleSourceMsg)
               else
                 let video_path = path_join td_path ''in_video''
                 in io_bind (call_download w u video_path) (\<lambda>_.
                    io_rethrow (\<lambda>e. RuntimeError (FfprobeVideo (str_of e)))
                      (call_probe w video_path))))"

definition r2_prefix_of :: "world \<Rightarrow> string option \<Rightarrow> string" where
  \<comment> \<open>\<^verbatim>\<open>(r2_prefix.strip("/") + "/") if r2_prefix else R2_PREFIX_DEFAULT\<close>\<close>
  "r2_prefix_of w r2_prefix =
     (case r2_prefix of
        None \<Rightarrow> r2_prefix_default w
      | Some p \<Rightarrow> if p = [] then r2_prefix_default w else strip_slash p @ ''/'')"

definition process_audio_split ::
  "world \<Rightarrow> int \<Rightarrow> string \<Rightarrow> string \<Rightarrow> string \<Rightarrow> string \<Rightarrow> bool \<Rightarrow> real option \<Rightarrow>
   string option \<Rightarrow> string option \<Rightarrow> split_result list io" where
  "process_audio_split w segments audio_url codec quality ext first_inverted
     video_duration video_url r2_prefix =
     (if segments < 1 then io_raise (ValueError SegmentsMsg)
      else if codec \<notin> set [''mp3'', ''aac'', ''copy''] then io_raise (ValueError CodecMsg)
      else
        let td_path = tmp_dir w;
            audio_path = path_join td_path ''in_audio''
        in io_bind (call_download w audio_url audio_path) (\<lambda>_.
           io_bind (io_rethrow (\<lambda>e. RuntimeError (FfprobeAudio (str_of e)))
                      (call_probe w audio_path)) (\<lambda>audio_dur.
           io_bind (resolve_cycle w td_path video_duration video_url) (\<lambda>cycle.
           if cycle \<le> 0 then io_raise (ValueError CycleMsg)
           else
             io_bind (io_rethrow (\<lambda>e. RuntimeError (str_of e))
                        (io_lift (compute_equalized_cycle_cuts audio_dur segments cycle))) (\<lambda>cuts.
             io_bind (io_rethrow (\<lambda>e. RuntimeError (FfmpegMsg (str_of e)))
                        (export_segments w audio_path cuts (path_join td_path ''chunks'')
                           codec quality ext)) (\<lambda>local_files.
             publish_loop w cuts cycle first_inverted (r2_prefix_of w r2_prefix)
               (zip [1..<length local_files + 1] local_files) []))))))"

section \<open>A world for the closed examples\<close>

text \<open>
  A world in which every download succeeds, every probed file lasts ten seconds,
  every subprocess succeeds and every upload returns a link.
\<close>

definition test_world :: world where
  "test_world =
     \<lparr>tmp_dir = ''/tmp/td'', ffmpeg_path = ''ffmpeg'', r2_prefix_default = ''chunks/'',
      download_to_path = (\<lambda>url dst. None),
      media_duration_seconds = (\<lambda>path. Inr 10),
      run_cmd = (\<lambda>cmd. Inr []),
      upload_file_to_r2 = (\<lambda>local_path k. Inr (''https://cdn.example/'' @ k))\<rparr>"

section \<open>Rounding\<close>

lemma py_int_of_int: "py_int (of_int n) = n"
  by (simp add: py_int_def)

lemma max_k_of_floor: "max_k_of a c = \<lfloor>(a - 1 / 1000) / c\<rfloor>"
  by (simp add: max_k_of_def floordiv_def py_int_of_int eps_def)




lemma py_round_mono:
  assumes "x \<le> y"
  shows "py_round x \<le> py_round y"
proof (cases "\<lfloor>x\<rfloor> = \<lfloor>y\<rfloor>")
  case True
  with assms show ?thesis
    unfolding py_round_def Let_def by auto
next
  case False
  have "\<lfloor>x\<rfloor> \<le> \<lfloor>y\<rfloor>"
    using assms by (rule floor_mono)
  with False have "\<lfloor>x\<rfloor> + 1 \<le> \<lfloor>y\<rfloor>"
    by simp
  moreover have "py_round x \<le> \<lfloor>x\<rfloor> + 1"
    unfolding py_round_def Let_def by auto
  moreover have "\<lfloor>y\<rfloor> \<le> py_round y"
    unfolding py_round_def Let_def by auto
  ultimately show ?thesis
    by linarith
qed


lemma round3_mono: "x \<le> y \<Longrightarrow> round3 x \<le> round3 y"
  by (simp add: round3_def py_round_mono divide_right_mono)

lemma round3_zero: "round3 0 = 0"
  by (simp add: round3_def py_round_def)


lemma choose_k_bounds:
  assumes "mn \<le> mx"
  shows "mn \<le> choose_k ik mn mx" and "choose_k ik mn mx \<le> mx"
  using assms by (simp_all add: choose_k_def)

lemma cuts_loop_heads:
  "cuts_loop L c mk n is kp ks =
     ks @ map (\<lambda>(i, kp). loop_body L c mk n kp i) (loop_heads L c mk n is kp)"
  by (induction "is" arbitrary: kp ks) (simp_all add: Let_def)

section \<open>Properties of the planner\<close>

lemma loop_body_bounds:
  assumes "kp + (n - i) \<le> mk"
  shows "kp < loop_body L c mk n kp i" and "loop_body L c mk n kp i + (n - (i + 1)) \<le> mk"
proof -
  have le: "min_allowed_of kp \<le> max_allowed_of mk n i"
    using assms by (simp add: min_allowed_of_def max_allowed_of_def)
  from choose_k_bounds(1) [OF le, of "ideal_k_of L c i"] show "kp < loop_body L c mk n kp i"
    by (simp add: loop_body_def min_allowed_of_def)
  from choose_k_bounds(2) [OF le, of "ideal_k_of L c i"] show "loop_body L c mk n kp i + (n - (i + 1)) \<le> mk"
    by (simp add: loop_body_def max_allowed_of_def)
qed

lemma loop_heads_inv:
  assumes "kp + (n - i0) \<le> mk"
  shows "\<forall>(i, k) \<in> set (loop_heads L c mk n [i0..n - 1] kp).
           i0 \<le> i \<and> i \<le> n - 1 \<and> kp \<le> k \<and> k + (n - i) \<le> mk"
  using assms
proof (induction "nat (n - i0)" arbitrary: i0 kp)
  case 0
  then have "[i0..n - 1] = []"
    by simp
  then show ?case
    by simp
next
  case (Suc m)
  then have i0: "i0 \<le> n - 1"
    by linarith
  then have unfold: "[i0..n - 1] = i0 # [i0 + 1..n - 1]"
    by (simp add: upto_rec1)
  let ?k = "loop_body L c mk n kp i0"
  have k: "kp < ?k" "?k + (n - (i0 + 1)) \<le> mk"
    using loop_body_bounds [OF Suc.prems] by simp_all
  have m: "m = nat (n - (i0 + 1))"
    using Suc.hyps(2) by linarith
  have "\<forall>(i, k) \<in> set (loop_heads L c mk n [i0 + 1..n - 1] ?k).
          i0 + 1 \<le> i \<and> i \<le> n - 1 \<and> ?k \<le> k \<and> k + (n - i) \<le> mk"
    using Suc.hyps(1) [OF m k(2)] .
  then show ?case
    using k(1) i0 Suc.prems unfolding unfold by (auto simp: Let_def)
qed

lemma loop_heads_length: "length (loop_heads L c mk n is kp) = length is"
  by (induction "is" arbitrary: kp) simp_all

lemma loop_ks_sorted:
  assumes "kp + (n - i0) \<le> mk"
  shows "sorted_wrt (<) (kp # map (\<lambda>(i, kp). loop_body L c mk n kp i)
           (loop_heads L c mk n [i0..n - 1] kp))"
  using assms
proof (induction "nat (n - i0)" arbitrary: i0 kp)
  case 0
  then have "[i0..n - 1] = []"
    by simp
  then show ?case
    by simp
next
  case (Suc m)
  then have i0: "i0 \<le> n - 1"
    by linarith
  then have unfold: "[i0..n - 1] = i0 # [i0 + 1..n - 1]"
    by (simp add: upto_rec1)
  let ?k = "loop_body L c mk n kp i0"
  have k: "kp < ?k" "?k + (n - (i0 + 1)) \<le> mk"
    using loop_body_bounds [OF Suc.prems] by simp_all
  have m: "m = nat (n - (i0 + 1))"
    using Suc.hyps(2) by linarith
  have "sorted_wrt (<) (?k # map (\<lambda>(i, kp). loop_body L c mk n kp i)
           (loop_heads L c mk n [i0 + 1..n - 1] ?k))"
    using Suc.hyps(1) [OF m k(2)] .
  then show ?case
    using k(1) unfolding unfold by (auto simp: Let_def)
qed

lemma loop_ks_upper:
  assumes "kp + (n - i0) \<le> mk"
  shows "\<forall>k \<in> set (map (\<lambda>(i, kp). loop_body L c mk n kp i)
           (loop_heads L c mk n [i0..n - 1] kp)). k \<le> mk"
proof -
  have "loop_body L c mk n k i \<le> mk"
    if "(i, k) \<in> set (loop_heads L c mk n [i0..n - 1] kp)" for i k
  proof -
    from loop_heads_inv [OF assms, of L c] that have "i \<le> n - 1" "k + (n - i) \<le> mk"
      by fastforce+
    with loop_body_bounds(2) [of k n i mk L c] show ?thesis
      by linarith
  qed
  then show ?thesis
    by auto
qed

lemmas planner_eval =
  compute_equalized_cycle_cuts_def chosen_ks_def max_k_of_floor loop_body_def
  ideal_k_of_def py_round_def choose_k_def min_allowed_of_def max_allowed_of_def
  round3_def Let_def

lemma loop_heads_fst: "map fst (loop_heads L c mk n is kp) = is"
  by (induction "is" arbitrary: kp) simp_all

lemma chosen_ks_heads:
  "chosen_ks a n c = map (\<lambda>(i, kp). planner_body a n c kp i) (planner_heads a n c)"
  by (simp add: chosen_ks_def planner_heads_def planner_body_def cuts_loop_heads)

lemma feasible_start:
  assumes "n - 1 \<le> max_k_of a c"
  shows "0 + (n - 1) \<le> max_k_of a c"
  using assms by simp

lemma chosen_ks_props:
  assumes "n - 1 \<le> max_k_of a c"
  shows "length (chosen_ks a n c) = nat (n - 1)"
    and "sorted_wrt (<) (0 # chosen_ks a n c)"
    and "\<forall>k \<in> set (chosen_ks a n c). k \<le> max_k_of a c"
proof -
  show "length (chosen_ks a n c) = nat (n - 1)"
    by (simp add: chosen_ks_def cuts_loop_heads loop_heads_length)
  show "sorted_wrt (<) (0 # chosen_ks a n c)"
    using loop_ks_sorted [OF feasible_start [OF assms]]
    unfolding chosen_ks_def cuts_loop_heads by simp
  show "\<forall>k \<in> set (chosen_ks a n c). k \<le> max_k_of a c"
    using loop_ks_upper [OF feasible_start [OF assms]]
    unfolding chosen_ks_def cuts_loop_heads by simp
qed

text \<open>
  C3. With \<open>segments = 1\<close> the planner returns exactly the two timestamps \<open>0\<close> and
  \<open>audio_dur\<close>, for every duration and every cycle (also a zero or negative one):
  there is no interior cut, nothing is rounded and the cycle is not looked at.
\<close>

theorem single_segment_plan:
  "compute_equalized_cycle_cuts audio_dur 1 cycle = Inr [0, audio_dur]"
  by (simp add: compute_equalized_cycle_cuts_def)

text \<open>
  C10. For \<open>segments > 1\<close>, \<open>cycle > 0\<close> and a feasible input
  (\<open>segments - 1 \<le> \<lfloor>(audio_dur - 1/1000) / cycle\<rfloor>\<close>), the loop runs once for each
  \<open>i\<close> from 1 to \<open>segments - 1\<close>, and at the head of every iteration, with the value
  \<open>k_prev\<close> the loop has there, \<open>min_allowed \<le> max_allowed\<close> holds. So the branch
  \<^verbatim>\<open>if min_allowed > max_allowed\<close> is never taken, and the index chosen in the
  iteration is greater than \<open>k_prev\<close> and at most \<open>max_k\<close>. The list \<open>ks\<close> the planner
  builds is the list of the indices chosen at these loop heads.
\<close>

theorem loop_never_collapses:
  assumes "1 < segments" and "0 < cycle"
    and "segments - 1 \<le> \<lfloor>(audio_dur - 1 / 1000) / cycle\<rfloor>"
  shows "map fst (planner_heads audio_dur segments cycle) = [1..segments - 1] \<and>
    chosen_ks audio_dur segments cycle =
      map (\<lambda>(i, k_prev). planner_body audio_dur segments cycle k_prev i)
        (planner_heads audio_dur segments cycle) \<and>
    (\<forall>(i, k_prev) \<in> set (planner_heads audio_dur segments cycle).
       min_allowed_of k_prev \<le> max_allowed_of (max_k_of audio_dur cycle) segments i \<and>
       k_prev < planner_body audio_dur segments cycle k_prev i \<and>
       planner_body audio_dur segments cycle k_prev i \<le> max_k_of audio_dur cycle)"
proof -
  let ?mk = "max_k_of audio_dur cycle"
  have start: "0 + (segments - 1) \<le> ?mk"
    using assms(3) by (simp add: max_k_of_floor)
  have "min_allowed_of k \<le> max_allowed_of ?mk segments i \<and>
        k < planner_body audio_dur segments cycle k i \<and>
        planner_body audio_dur segments cycle k i \<le> ?mk"
    if "(i, k) \<in> set (planner_heads audio_dur segments cycle)" for i k
  proof -
    from that loop_heads_inv [OF start, of "audio_dur / of_int segments" cycle]
    have i: "i \<le> segments - 1" and k: "k + (segments - i) \<le> ?mk"
      unfolding planner_heads_def by fastforce+
    from loop_body_bounds [OF k, of "audio_dur / of_int segments" cycle] i k
    show ?thesis
      by (simp add: planner_body_def min_allowed_of_def max_allowed_of_def)
  qed
  then show ?thesis
    by (auto simp: chosen_ks_heads) (simp add: planner_heads_def loop_heads_fst)
qed

text \<open>
  The hypotheses of C10 hold for nine seconds of audio, three segments and a cycle of
  three seconds.
\<close>

theorem loop_never_collapses_witness:
  "(1::int) < 3 \<and> (0::real) < 3 \<and> (3::int) - 1 \<le> \<lfloor>((9::real) - 1 / 1000) / 3\<rfloor> \<and>
   planner_heads 9 3 3 = [(1, 0), (2, 1)] \<and>
   chosen_ks 9 3 3 = [planner_body 9 3 3 0 1, planner_body 9 3 3 1 2] \<and>
   min_allowed_of 0 \<le> max_allowed_of (max_k_of 9 3) 3 1 \<and>
   0 < planner_body 9 3 3 0 1 \<and>
   planner_body 9 3 3 0 1 \<le> max_k_of 9 3 \<and>
   min_allowed_of 1 \<le> max_allowed_of (max_k_of 9 3) 3 2 \<and>
   1 < planner_body 9 3 3 1 2 \<and>
   planner_body 9 3 3 1 2 \<le> max_k_of 9 3"
proof -
  have h1: "(1::int) < 3" and h2: "(0::real) < 3"
    and h3: "(3::int) - 1 \<le> \<lfloor>((9::real) - 1 / 1000) / 3\<rfloor>"
    by simp_all
  have heads: "planner_heads 9 3 3 = [(1, 0), (2, 1)]"
    by code_simp
  from loop_never_collapses [OF h1 h2 h3] h1 h2 h3 show ?thesis
    unfolding heads by simp
qed



text \<open>
  C5. For ten seconds of audio, two segments and a cycle of three seconds: \<open>max_k = 3\<close>,
  \<open>ideal_k = 2\<close>, \<open>min_allowed = 1\<close>, \<open>max_allowed = 3\<close>, the chosen index is 2 and
  the planner returns \<open>[0, 6, 10]\<close>.
\<close>

theorem scenario_two:
  "max_k_of 10 3 = 3 \<and>
   ideal_k_of (10 / of_int 2) 3 1 = 2 \<and>
   min_allowed_of 0 = 1 \<and>
   max_allowed_of 3 2 1 = 3 \<and>
   choose_k 2 1 3 = 2 \<and>
   chosen_ks 10 2 3 = [2] \<and>
   compute_equalized_cycle_cuts 10 2 3 = Inr [0, 6, 10]"
  by (simp add: planner_eval)

lemma compute_feasible:
  assumes "1 < n" and "c \<noteq> 0" and "n - 1 \<le> max_k_of a c"
  shows "compute_equalized_cycle_cuts a n c =
           Inr ([0] @ map (\<lambda>k. round3 (of_int k * c)) (chosen_ks a n c) @ [round3 a])"
  using assms by (simp add: compute_equalized_cycle_cuts_def)

lemma max_k_times_cycle:
  assumes "0 < c" and "k \<le> max_k_of a c"
  shows "of_int k * c \<le> a - 1 / 1000"
proof -
  have "real_of_int k \<le> of_int (max_k_of a c)"
    using assms(2) by simp
  also have "\<dots> \<le> (a - 1 / 1000) / c"
    by (simp add: max_k_of_floor)
  finally show ?thesis
    using assms(1) by (simp add: pos_le_divide_eq)
qed

lemma sorted_cuts:
  assumes c: "0 < c" and a: "0 \<le> a" and ks: "sorted_wrt (<) (0 # ks)"
    and up: "\<forall>k \<in> set ks. k \<le> max_k_of a c"
  shows "sorted ([0] @ map (\<lambda>k. round3 (of_int k * c)) ks @ [round3 a])"
proof -
  let ?f = "\<lambda>k::int. round3 (of_int k * c)"
  have mono: "?f k \<le> ?f k'" if "k \<le> k'" for k k'
    using that c by (intro round3_mono mult_right_mono) auto
  have pos: "0 \<le> ?f k" if "k \<in> set ks" for k
  proof -
    from ks that have "0 \<le> k"
      by auto
    from mono [OF this] show ?thesis
      by (simp add: round3_zero)
  qed
  have top: "?f k \<le> round3 a" if "k \<in> set ks" for k
  proof -
    from up that have "of_int k * c \<le> a - 1 / 1000"
      by (intro max_k_times_cycle [OF c]) auto
    then show ?thesis
      by (intro round3_mono) simp
  qed
  have "sorted_wrt (\<le>) ks"
    using ks by (auto intro: sorted_wrt_mono_rel [where P = "(<)"])
  then have "sorted (map ?f ks)"
    using mono by (simp add: sorted_wrt_map sorted_wrt_mono_rel [where P = "(\<le>)"])
  moreover have "0 \<le> round3 a"
    using round3_mono [OF a] by (simp add: round3_zero)
  ultimately show ?thesis
    using pos top by (auto simp: sorted_append)
qed





text \<open>
  C7, as amended. For \<open>segments \<ge> 1\<close>, a duration that is not negative and a positive
  cycle, every list the planner returns has length \<open>segments + 1\<close>, is non-decreasing and
  starts at 0. Its last element is the duration rounded to 3 decimals when
  \<open>segments > 1\<close>, and the duration itself, not rounded, when \<open>segments = 1\<close>.
\<close>

theorem cut_plan_shape:
  assumes "1 \<le> segments" and "0 \<le> audio_dur" and "0 < cycle"
    and "compute_equalized_cycle_cuts audio_dur segments cycle = Inr cuts"
  shows "length cuts = nat segments + 1 \<and> sorted cuts \<and> hd cuts = 0 \<and>
    last cuts = (if segments = 1 then audio_dur else round3 audio_dur)"
proof (cases "segments = 1")
  case True
  with assms(4) have "cuts = [0, audio_dur]"
    by (simp add: compute_equalized_cycle_cuts_def)
  with True assms(2) show ?thesis
    by simp
next
  case False
  with assms(1) have n: "1 < segments"
    by simp
  with assms(3,4) have feas: "segments - 1 \<le> max_k_of audio_dur cycle"
    by (auto simp: compute_equalized_cycle_cuts_def Let_def split: if_splits)
  note ks = chosen_ks_props [OF feas]
  let ?cuts = "[0] @ map (\<lambda>k. round3 (of_int k * cycle)) (chosen_ks audio_dur segments cycle)
     @ [round3 audio_dur]"
  have "compute_equalized_cycle_cuts audio_dur segments cycle = Inr ?cuts"
    using n assms(3) feas by (intro compute_feasible) auto
  with assms(4) have cuts: "cuts = ?cuts"
    by simp
  have "sorted ?cuts"
    using assms(2,3) ks(2,3) by (intro sorted_cuts) auto
  moreover have "length ?cuts = nat segments + 1"
    using n ks(1) by simp
  ultimately show ?thesis
    using False unfolding cuts by simp
qed

text \<open>
  The hypotheses of C7 hold in the second scenario of the specification.
\<close>

theorem cut_plan_shape_witness:
  "(1::int) \<le> 2 \<and> (0::real) \<le> 10 \<and> (0::real) < 3 \<and>
   compute_equalized_cycle_cuts 10 2 3 = Inr [0, 6, 10] \<and>
   length [0, 6, 10 :: real] = nat 2 + 1 \<and> sorted [0, 6, 10 :: real] \<and>
   hd [0, 6, 10 :: real] = 0 \<and>
   last [0, 6, 10 :: real] = (if (2::int) = 1 then 10 else round3 10)"
proof -
  have h1: "(1::int) \<le> 2" and h2: "(0::real) \<le> 10" and h3: "(0::real) < 3"
    by simp_all
  have h4: "compute_equalized_cycle_cuts 10 2 3 = Inr [0, 6, 10]"
    by (simp add: planner_eval)
  from cut_plan_shape [OF h1 h2 h3 h4] h1 h2 h3 h4 show ?thesis
    by blast
qed

text \<open>
  C7 as stated fails: with one segment and a duration of 1.2346 seconds the last
  element is 1.2346, and the duration rounded to 3 decimals is 1.235.
\<close>

theorem unrounded_end_counterexample:
  "compute_equalized_cycle_cuts (12346 / 10000) 1 1 = Inr [0, 12346 / 10000] \<and>
   last [0, 12346 / 10000 :: real] \<noteq> round3 (12346 / 10000)"
  by (simp add: planner_eval)

section \<open>Properties of the orchestrator\<close>












text \<open>
  C9. When the codec is none of "mp3", "aac" and "copy", \<^verbatim>\<open>process_audio_split\<close>
  fails with a ValueError of the validation step (the one about \<open>segments\<close> when
  \<open>segments < 1\<close>, else the one about the codec) and the list of events is unchanged:
  no download, no probe, no subprocess and no upload has been called.
\<close>

theorem invalid_codec_rejected:
  assumes "codec \<notin> {''mp3'', ''aac'', ''copy''}"
  shows "process_audio_split w segments audio_url codec quality ext first_inverted
           video_duration video_url r2_prefix tr =
         (Inl (ValueError (if segments < 1 then SegmentsMsg else CodecMsg)), tr)"
  using assms by (simp add: process_audio_split_def io_raise_def)

text \<open>
  The hypothesis of C9 holds for the codec "wav".
\<close>

theorem invalid_codec_rejected_witness:
  "''wav'' \<notin> {''mp3'', ''aac'', ''copy''} \<and>
   process_audio_split test_world 2 ''https://example.com/a.mp3'' ''wav'' ''2'' ''wav''
     False (Some 3) None None [] = (Inl (ValueError CodecMsg), [])"
proof -
  have h: "''wav'' \<notin> {''mp3'', ''aac'', ''copy''}"
    by simp
  from invalid_codec_rejected [OF h, of test_world 2 "''https://example.com/a.mp3''" "''2''"
      "''wav''" False "Some 3" None None "[]"] h
  show ?thesis
    by simp
qed

text \<open>
  C4 as stated fails: the planner does not check the sign of the cycle. With one
  segment and the cycle \<open>-1\<close> it returns the plan \<open>[0, 10]\<close>.
\<close>

theorem planner_ignores_cycle_counterexample:
  "(1::int) \<le> 1 \<and> (- 1::real) \<le> 0 \<and>
   compute_equalized_cycle_cuts 10 1 (- 1) = Inr [0, 10]"
  by (simp add: compute_equalized_cycle_cuts_def)

text \<open>
  C4, as amended. The check of the cycle is made by \<^verbatim>\<open>process_audio_split\<close>, before
  it calls the planner. For \<open>segments \<ge> 1\<close> and a supported codec, when the download and
  the probe of the audio succeed and the cycle (the \<open>video_duration\<close> given by the
  caller, or else the probed duration of the downloaded video) is zero or negative,
  \<^verbatim>\<open>process_audio_split\<close> fails with the ValueError "La duracion del ciclo debe ser > 0"
  (InvalidCycleError); no subprocess of the exporter and no upload has been called.
\<close>

theorem cycle_guard:
  assumes "1 \<le> segments" and "codec \<in> {''mp3'', ''aac'', ''copy''}"
    and "download_to_path w audio_url (path_join (tmp_dir w) ''in_audio'') = None"
    and "media_duration_seconds w (path_join (tmp_dir w) ''in_audio'') = Inr audio_dur"
    and "video_duration = Some cycle \<or>
         (video_duration = None \<and>
          (\<exists>u. video_url = Some u \<and> u \<noteq> [] \<and>
             download_to_path w u (path_join (tmp_dir w) ''in_video'') = None \<and>
             media_duration_seconds w (path_join (tmp_dir w) ''in_video'') = Inr cycle))"
    and "cycle \<le> 0"
  shows "\<exists>evs.
    process_audio_split w segments audio_url codec quality ext first_inverted
      video_duration video_url r2_prefix tr = (Inl (ValueError CycleMsg), tr @ evs) \<and>
    (\<forall>e \<in> set evs. \<forall>cmd p k. e \<noteq> Run cmd \<and> e \<noteq> Upload p k)"
proof -
  from assms(5) show ?thesis
  proof
    assume "video_duration = Some cycle"
    with assms(1-4,6) show ?thesis
      by (simp add: process_audio_split_def io_bind_def io_rethrow_def io_raise_def
          io_return_def call_download_def call_probe_def resolve_cycle_def Let_def)
  next
    assume "video_duration = None \<and>
          (\<exists>u. video_url = Some u \<and> u \<noteq> [] \<and>
             download_to_path w u (path_join (tmp_dir w) ''in_video'') = None \<and>
             media_duration_seconds w (path_join (tmp_dir w) ''in_video'') = Inr cycle)"
    then obtain u where "video_duration = None" "video_url = Some u" "u \<noteq> []"
      "download_to_path w u (path_join (tmp_dir w) ''in_video'') = None"
      "media_duration_seconds w (path_join (tmp_dir w) ''in_video'') = Inr cycle"
      by blast
    with assms(1-4,6) show ?thesis
      by (simp add: process_audio_split_def io_bind_def io_rethrow_def io_raise_def
          io_return_def call_download_def call_probe_def resolve_cycle_def Let_def)
  qed
qed

text \<open>
  C8. The claim is that the millisecond field of \<^verbatim>\<open>hhmmss_ms(t)\<close> always has exactly
  three digits. The code rounds the fractional part of \<open>t\<close> to milliseconds and does
  not carry into the seconds: for \<open>t = 59.9997\<close> the rounded value is 1000 and the
  string is "00:00:59.1000", with a field of four digits. The input is reached with
  \<open>segments = 1\<close>, where the plan ends at the duration as probed: the exporter then
  passes this string as the duration of the segment.
\<close>

theorem hhmmss_ms_carry:
  "py_round ((599997 / 10000 - of_int (py_int (599997 / 10000))) * 1000) = 1000 \<and>
   hhmmss_ms (599997 / 10000) = ''00:00:59.1000'' \<and>
   compute_equalized_cycle_cuts (599997 / 10000) 1 3 = Inr [0, 599997 / 10000] \<and>
   export_cmd test_world ''in_audio'' [0, 599997 / 10000] 0 =
     [''ffmpeg'', ''-hide_banner'', ''-y'', ''-ss'', ''00:00:00.000'', ''-t'', ''00:00:59.1000'',
      ''-i'', ''in_audio'', ''-vn'']"
  by code_simp


text \<open>
  The hypotheses of the amended C4 hold in the test world with \<open>video_duration = 0\<close>.
\<close>

theorem cycle_guard_witness:
  "(1::int) \<le> 2 \<and> ''mp3'' \<in> {''mp3'', ''aac'', ''copy''} \<and>
   download_to_path test_world ''https://example.com/a.mp3''
     (path_join (tmp_dir test_world) ''in_audio'') = None \<and>
   media_duration_seconds test_world (path_join (tmp_dir test_world) ''in_audio'') = Inr 10 \<and>
   (0::real) \<le> 0 \<and>
   (\<exists>evs.
      process_audio_split test_world 2 ''https://example.com/a.mp3'' ''mp3'' ''2'' ''mp3''
        False (Some 0) None None [] = (Inl (ValueError CycleMsg), [] @ evs) \<and>
      (\<forall>e \<in> set evs. \<forall>cmd p k. e \<noteq> Run cmd \<and> e \<noteq> Upload p k))"
proof -
  have h1: "(1::int) \<le> 2" and h2: "''mp3'' \<in> {''mp3'', ''aac'', ''copy''}"
    and h6: "(0::real) \<le> 0"
    by simp_all
  have h3: "download_to_path test_world ''https://example.com/a.mp3''
      (path_join (tmp_dir test_world) ''in_audio'') = None"
    by (simp add: test_world_def)
  have h4: "media_duration_seconds test_world (path_join (tmp_dir test_world) ''in_audio'')
      = Inr 10"
    by (simp add: test_world_def)
  have h5: "Some (0::real) = Some 0 \<or>
         (Some (0::real) = None \<and>
          (\<exists>u. None = Some u \<and> u \<noteq> [] \<and>
             download_to_path test_world u (path_join (tmp_dir test_world) ''in_video'') = None \<and>
             media_duration_seconds test_world (path_join (tmp_dir test_world) ''in_video'')
               = Inr 0))"
    by simp
  from cycle_guard [OF h1 h2 h3 h4 h5 h6] h1 h2 h3 h4 h6 show ?thesis
    by blast
qed

end
